theory Spec2Isabelle
  imports
    Complex_Main
    "HOL-Library.Sublist"
    "HOL-Library.Char_ord"
    "HOL-Library.List_Lexorder"
    "HOL-Library.Multiset"
begin

section \<open>Personal library manager: the catalog, its store and its views\<close>

text \<open>
  The program is one Python module, \<^verbatim>\<open>library_manager.py\<close>. It keeps a list of book
  dictionaries in the session state of the user interface, writes the whole list to the file
  \<^verbatim>\<open>library.json\<close> after every change and offers views that add, remove, search, sort
  and summarise the books. Each view is modelled as a function from the values of its
  widgets and the state before the run to the state after the run.
\<close>

subsection \<open>Data model\<close>

text \<open>
  A book is the dictionary built in \<^verbatim>\<open>add_book_view\<close> (keys \<^verbatim>\<open>title\<close>,
  \<^verbatim>\<open>author\<close>, \<^verbatim>\<open>year\<close>, \<^verbatim>\<open>genre\<close>, \<^verbatim>\<open>read\<close>). Python compares
  dictionaries by their items, which is the equality of the record.
\<close>

record book =
  title :: string
  author :: string
  year :: int
  genre :: string
  read :: bool

text \<open>
  Exceptions are values. Every constructor stands for a subclass of Python's
  \<^verbatim>\<open>Exception\<close>, the class that the handlers of the store catch.
\<close>

datatype exn =
    OSError string
  | JSONDecodeError string
  | ValueError string
  | Exception string

datatype view = Menu | Add_book | Remove_book | Search_books | View_all | Statistics_page

text \<open>
  The figures of the statistics page: \<^verbatim>\<open>total_books\<close>, \<^verbatim>\<open>read_count\<close>,
  \<^verbatim>\<open>percentage_read\<close> and the dictionary \<^verbatim>\<open>genres\<close>. Python computes the percentage
  in binary floating point; the model keeps the exact quotient, which that float rounds.
\<close>

record stats =
  total_books :: nat
  read_count :: nat
  percentage_read :: rat
  genres :: "string \<rightharpoonup> nat"

text \<open>
  What a run puts on the screen, in the order of the calls. Titles, captions and the
  buttons themselves are left out. The messages are:
  \<^item> \<open>Load_error e\<close>: \<^verbatim>\<open>st.error(f"Error loading library: {e}")\<close>;
  \<^item> \<open>Save_error e\<close>: \<^verbatim>\<open>st.error(f"Error saving library: {e}")\<close>;
  \<^item> \<open>Required_fields\<close>: \<^verbatim>\<open>st.error("Title and Author are required fields")\<close>;
  \<^item> \<open>Library_empty\<close>: \<^verbatim>\<open>st.warning("Your library is empty!")\<close>;
  \<^item> \<open>No_books_found\<close>: \<^verbatim>\<open>st.warning("No books found matching your search")\<close>;
  \<^item> \<open>Added t\<close>: \<^verbatim>\<open>st.success(f"'{title}' has been added to your library!")\<close>;
  \<^item> \<open>Removed t\<close>: \<^verbatim>\<open>st.success(f"Removed '{book['title']}'")\<close>;
  \<^item> \<open>Found n\<close>: \<^verbatim>\<open>st.success(f"Found {len(results)} book(s):")\<close>;
  \<^item> \<open>Book_list bs\<close>: \<^verbatim>\<open>display_book_list(bs)\<close>;
  \<^item> \<open>Removal_row b\<close>: one row of the removal view, the book and its button;
  \<^item> \<open>Figures f\<close>: the metrics and charts of the statistics page.
\<close>

datatype element =
    Load_error exn
  | Save_error exn
  | Required_fields
  | Library_empty
  | No_books_found
  | Added string
  | Removed string
  | Found nat
  | Book_list "book list"
  | Removal_row book
  | Figures stats

text \<open>
  The state a run works on: \<^verbatim>\<open>st.session_state.library\<close> and
  \<^verbatim>\<open>st.session_state.current_view\<close>, the content of the file \<^verbatim>\<open>library.json\<close>
  (\<open>None\<close> when the file does not exist) and what has been put on the screen.
\<close>

record state =
  library :: "book list"
  current_view :: view
  library_file :: "string option"
  screen :: "element list"

definition display :: "element \<Rightarrow> state \<Rightarrow> state" where
  "display e s = s\<lparr>screen := screen s @ [e]\<rparr>"

subsection \<open>Strings\<close>

text \<open>
  \<^verbatim>\<open>str.lower\<close>, \<^verbatim>\<open>str.strip\<close> and the substring test \<^verbatim>\<open>in\<close>. A string is a
  list of 8-bit characters; case mapping and white space are those of ASCII, and a
  character outside ASCII is left as it is (Python uses the Unicode tables there).
\<close>

definition lower_char :: "char \<Rightarrow> char" where
  "lower_char c =
     (if CHR ''A'' \<le> c \<and> c \<le> CHR ''Z'' then char_of (of_char c + (32::nat)) else c)"

definition lower :: "string \<Rightarrow> string" where
  "lower s = map lower_char s"

definition isspace :: "char \<Rightarrow> bool" where
  "isspace c =
     (let n = (of_char c :: nat) in n = 32 \<or> (9 \<le> n \<and> n \<le> 13) \<or> (28 \<le> n \<and> n \<le> 31))"

definition strip :: "string \<Rightarrow> string" where
  "strip s = rev (dropWhile isspace (rev (dropWhile isspace s)))"

text \<open>\<^verbatim>\<open>t in s\<close> on strings: \<open>t\<close> occurs in \<open>s\<close> as a contiguous block.\<close>

definition contains :: "string \<Rightarrow> string \<Rightarrow> bool" where
  "contains s t = sublist t s"

subsection \<open>The store: \<^verbatim>\<open>load_library\<close> and \<^verbatim>\<open>save_library\<close>\<close>

text \<open>
  The encoder \<^verbatim>\<open>json.dump\<close> and the decoder \<^verbatim>\<open>json.load\<close> belong to Python's
  library, not to the program: they are parameters, \<open>json_dump\<close> giving the text written
  for a list of books and \<open>json_load\<close> giving, for a text, the decoded list or the
  exception raised. What the operating system does with the file in one call is a
  parameter too.

  Reading: \<open>None\<close> when \<^verbatim>\<open>open(LIBRARY_FILE, 'r')\<close> and the reads succeed,
  \<open>Some e\<close> when one of them raises \<open>e\<close>.
\<close>

type_synonym json_dump = "book list \<Rightarrow> string"



text \<open>
  Writing: \<open>Written\<close> when \<^verbatim>\<open>open(LIBRARY_FILE, 'w')\<close> and \<^verbatim>\<open>json.dump\<close>
  succeed; \<open>Open_raises e\<close> when the file cannot be opened, which leaves it as it was;
  \<open>Dump_raises e n\<close> when the file has been opened, and so emptied, and the dump raises
  after \<open>n\<close> characters have reached it.
\<close>

datatype writing = Written | Open_raises exn | Dump_raises exn nat

definition save_library :: "json_dump \<Rightarrow> writing \<Rightarrow> state \<Rightarrow> state" where
  "save_library json_dump w s =
     (case w of
        Written \<Rightarrow> s\<lparr>library_file := Some (json_dump (library s))\<rparr>
      | Open_raises e \<Rightarrow> display (Save_error e) s
      | Dump_raises e n \<Rightarrow>
          display (Save_error e) (s\<lparr>library_file := Some (take n (json_dump (library s)))\<rparr>))"

subsection \<open>Adding a book\<close>

text \<open>The values of the widgets of the form and of the two buttons in one run.\<close>

record add_form =
  title_input :: string
  author_input :: string
  year_input :: int
  genre_input :: string
  read_input :: bool
  submitted :: bool
  add_back :: bool

text \<open>
  \<^verbatim>\<open>if st.button("Back to Menu"): st.session_state.current_view = "menu"; st.rerun()\<close>,
  the end of every view.
\<close>

definition back_to_menu :: "bool \<Rightarrow> state \<Rightarrow> state" where
  "back_to_menu back s = (if back then s\<lparr>current_view := Menu\<rparr> else s)"

text \<open>The dictionary \<^verbatim>\<open>new_book\<close>; a blank genre becomes \<^verbatim>\<open>"Unknown"\<close>.\<close>

definition new_book :: "add_form \<Rightarrow> book" where
  "new_book f =
     \<lparr>title = strip (title_input f),
      author = strip (author_input f),
      year = year_input f,
      genre = (if strip (genre_input f) = [] then ''Unknown'' else strip (genre_input f)),
      read = read_input f\<rparr>"

text \<open>\<^verbatim>\<open>st.session_state.library.append(new_book); save_library()\<close>.\<close>

definition add_book :: "json_dump \<Rightarrow> writing \<Rightarrow> book \<Rightarrow> state \<Rightarrow> state" where
  "add_book json_dump w b s = save_library json_dump w (s\<lparr>library := library s @ [b]\<rparr>)"

definition add_book_view :: "json_dump \<Rightarrow> writing \<Rightarrow> add_form \<Rightarrow> state \<Rightarrow> state" where
  "add_book_view json_dump w f s =
     (if submitted f then
        (if strip (title_input f) = [] \<or> strip (author_input f) = []
         then display Required_fields s
         else (display (Added (strip (title_input f)))
                 (add_book json_dump w (new_book f) s))\<lparr>current_view := Menu\<rparr>)
      else back_to_menu (add_back f) s)"

subsection \<open>Removing a book\<close>

text \<open>
  \<^verbatim>\<open>list.remove(x)\<close> deletes the first item equal to \<open>x\<close> and raises
  \<^verbatim>\<open>ValueError\<close> when there is none, leaving the list as it was.
\<close>

definition list_remove :: "'a list \<Rightarrow> 'a \<Rightarrow> exn + 'a list" where
  "list_remove xs x =
     (if x \<in> set xs then Inr (remove1 x xs)
      else Inl (ValueError ''list.remove(x): x not in list''))"

text \<open>
  How a piece of a view ends: it runs to its end, it stops the run with
  \<^verbatim>\<open>st.rerun()\<close>, or an exception leaves it.
\<close>

datatype control = Continue | Rerun | Raised exn

text \<open>
  The body of \<^verbatim>\<open>if st.button(f"Remove #{i+1}")\<close>:
  \<^verbatim>\<open>library.remove(book); save_library(); st.success(...); st.rerun()\<close>.
  Nothing catches the exception of \<^verbatim>\<open>remove\<close>.
\<close>

definition remove_book :: "json_dump \<Rightarrow> writing \<Rightarrow> book \<Rightarrow> state \<Rightarrow> control \<times> state" where
  "remove_book json_dump w b s =
     (case list_remove (library s) b of
        Inl e \<Rightarrow> (Raised e, s)
      | Inr books \<Rightarrow>
          (Rerun, display (Removed (title b)) (save_library json_dump w (s\<lparr>library := books\<rparr>))))"

text \<open>
  The list \<^verbatim>\<open>found_books\<close>: the books whose title or author contains the search term,
  or the library itself when the term is empty.
\<close>

definition found_books :: "string \<Rightarrow> book list \<Rightarrow> book list" where
  "found_books search_term books =
     (if search_term \<noteq> [] then
        filter (\<lambda>b. contains (lower (title b)) search_term \<or>
                    contains (lower (author b)) search_term) books
      else books)"

text \<open>
  The loop \<^verbatim>\<open>for i, book in enumerate(found_books)\<close>. \<open>clicked\<close> is the index of the
  button that was pressed, if one was; \<open>i\<close> is the index of the first book of the rest.
  A press ends the loop, so the library is never changed while the loop goes on.
\<close>

fun removal_rows ::
  "json_dump \<Rightarrow> writing \<Rightarrow> nat option \<Rightarrow> nat \<Rightarrow> book list \<Rightarrow> state \<Rightarrow> control \<times> state" where
  "removal_rows json_dump w clicked i [] s = (Continue, s)"
| "removal_rows json_dump w clicked i (b # rest) s =
     (if clicked = Some i then remove_book json_dump w b (display (Removal_row b) s)
      else removal_rows json_dump w clicked (Suc i) rest (display (Removal_row b) s))"

text \<open>
  The view returns the exception that leaves it, if any, and the state at that point.
\<close>

definition remove_book_view ::
  "json_dump \<Rightarrow> writing \<Rightarrow> string \<Rightarrow> nat option \<Rightarrow> bool \<Rightarrow> state \<Rightarrow> exn option \<times> state" where
  "remove_book_view json_dump w search_input clicked back s =
     (if library s = [] then (None, back_to_menu back (display Library_empty s))
      else
        (let found = found_books (lower search_input) (library s) in
         if found = [] then (None, back_to_menu back (display No_books_found s))
         else
           (case removal_rows json_dump w clicked 0 found s of
              (Continue, s') \<Rightarrow> (None, back_to_menu back s')
            | (Rerun, s') \<Rightarrow> (None, s')
            | (Raised e, s') \<Rightarrow> (Some e, s'))))"

subsection \<open>Searching\<close>

datatype search_type = Title | Author

text \<open>The list \<^verbatim>\<open>results\<close>, computed when the search term is not empty.\<close>

definition search_results :: "search_type \<Rightarrow> string \<Rightarrow> book list \<Rightarrow> book list" where
  "search_results search_type search_term books =
     (case search_type of
        Title \<Rightarrow> filter (\<lambda>b. contains (lower (title b)) search_term) books
      | Author \<Rightarrow> filter (\<lambda>b. contains (lower (author b)) search_term) books)"

definition search_books_view :: "search_type \<Rightarrow> string \<Rightarrow> bool \<Rightarrow> state \<Rightarrow> state" where
  "search_books_view search_type search_input back s =
     (if library s = [] then back_to_menu back (display Library_empty s)
      else
        (let search_term = lower (strip search_input) in
         back_to_menu back
           (if search_term \<noteq> [] then
              (let results = search_results search_type search_term (library s) in
               if results = [] then display No_books_found s
               else display (Book_list results) (display (Found (length results)) s))
            else s)))"

subsection \<open>Viewing all books, sorted\<close>

text \<open>
  \<^verbatim>\<open>sorted(xs, key=k, reverse=r)\<close> is a stable sort by the key: ascending, items with
  equal keys in the order they had. With \<^verbatim>\<open>reverse=True\<close> the order is descending
  and items with equal keys still keep the order they had, which is the result of
  reversing, sorting and reversing again.
\<close>

definition sorted_py :: "('a \<Rightarrow> 'k::linorder) \<Rightarrow> bool \<Rightarrow> 'a list \<Rightarrow> 'a list" where
  "sorted_py key reverse xs =
     (if reverse then rev (sort_key key (rev xs)) else sort_key key xs)"

datatype sort_option =
  Title_AZ | Title_ZA | Author_AZ | Author_ZA | Year_Newest | Year_Oldest

fun sorted_library :: "sort_option \<Rightarrow> book list \<Rightarrow> book list" where
  "sorted_library Title_AZ books = sorted_py (\<lambda>x. lower (title x)) False books"
| "sorted_library Title_ZA books = sorted_py (\<lambda>x. lower (title x)) True books"
| "sorted_library Author_AZ books = sorted_py (\<lambda>x. lower (author x)) False books"
| "sorted_library Author_ZA books = sorted_py (\<lambda>x. lower (author x)) True books"
| "sorted_library Year_Newest books = sorted_py (\<lambda>x. year x) True books"
| "sorted_library Year_Oldest books = sorted_py (\<lambda>x. year x) False books"


subsection \<open>Statistics\<close>

text \<open>
  The loop that fills the dictionary \<^verbatim>\<open>genres\<close>:
  \<^verbatim>\<open>genre = book['genre'] if book['genre'] else "Unknown"\<close>, then
  \<^verbatim>\<open>genres[genre] = genres.get(genre, 0) + 1\<close>.
\<close>

definition genre_or_unknown :: "book \<Rightarrow> string" where
  "genre_or_unknown b = (if genre b \<noteq> [] then genre b else ''Unknown'')"

fun count_genres :: "(string \<rightharpoonup> nat) \<Rightarrow> book list \<Rightarrow> (string \<rightharpoonup> nat)" where
  "count_genres d [] = d"
| "count_genres d (b # rest) =
     count_genres
       (d(genre_or_unknown b \<mapsto> (case d (genre_or_unknown b) of None \<Rightarrow> 0 | Some n \<Rightarrow> n) + 1))
       rest"

text \<open>
  The figures, computed after the test for an empty library:
  \<^verbatim>\<open>len(library)\<close>, \<^verbatim>\<open>sum(1 for book in library if book['read'])\<close> and
  \<^verbatim>\<open>(read_count / total_books) * 100 if total_books > 0 else 0\<close>.
\<close>

definition figures :: "book list \<Rightarrow> stats" where
  "figures books =
     (let total = length books;
          reads = sum_list (map (\<lambda>b. 1) (filter read books))
      in \<lparr>total_books = total,
          read_count = reads,
          percentage_read = (if total > 0 then (of_nat reads / of_nat total) * 100 else 0),
          genres = count_genres Map.empty books\<rparr>)"


subsection \<open>Example data\<close>

text \<open>
  The two books of the example catalog, a form that enters the first of them, the text
  that \<^verbatim>\<open>json.dump\<close> writes for the catalog holding that book alone, and the encoder
  and decoder on the texts of the example.
\<close>

definition dune :: book where
  "dune = \<lparr>title = ''Dune'', author = ''Herbert'', year = 1965, genre = ''Sci-Fi'', read = True\<rparr>"

definition emma :: book where
  "emma = \<lparr>title = ''Emma'', author = ''Austen'', year = 1815, genre = ''Classic'', read = False\<rparr>"


definition dune_json :: string where
  \<open>dune_json =
     ''[{"title": "Dune", "author": "Herbert", "year": 1965, "genre": "Sci-Fi", "read": true}]''\<close>

definition example_dump :: json_dump where
  "example_dump books = (if books = [dune] then dune_json else ''[]'')"


definition session :: "book list \<Rightarrow> state" where
  "session books = \<lparr>library = books, current_view = Menu, library_file = None, screen = []\<rparr>"

section \<open>Properties\<close>

subsection \<open>Auxiliary facts\<close>

lemma library_display [simp]: "library (display e s) = library s"
  by (simp add: display_def)

lemma library_file_display [simp]: "library_file (display e s) = library_file s"
  by (simp add: display_def)

lemma screen_display [simp]: "screen (display e s) = screen s @ [e]"
  by (simp add: display_def)

lemma library_back_to_menu [simp]: "library (back_to_menu back s) = library s"
  by (simp add: back_to_menu_def)

lemma library_file_back_to_menu [simp]: "library_file (back_to_menu back s) = library_file s"
  by (simp add: back_to_menu_def)

lemma screen_back_to_menu [simp]: "screen (back_to_menu back s) = screen s"
  by (simp add: back_to_menu_def)

lemma library_save_library [simp]: "library (save_library json_dump w s) = library s"
  by (cases w) (simp_all add: save_library_def)

lemma save_library_Written:
  "library_file (save_library json_dump Written s) = Some (json_dump (library s))"
  "screen (save_library json_dump Written s) = screen s"
  by (simp_all add: save_library_def)

lemma library_add_book [simp]: "library (add_book json_dump w b s) = library s @ [b]"
  by (simp add: add_book_def)

lemma library_add_book_view:
  "library (add_book_view json_dump w f s) =
     (if submitted f \<and> strip (title_input f) \<noteq> [] \<and> strip (author_input f) \<noteq> []
      then library s @ [new_book f] else library s)"
  by (simp add: add_book_view_def)

lemma lower_Nil [simp]: "lower [] = []"
  by (simp add: lower_def)

lemma strip_Nil [simp]: "strip [] = []"
  by (simp add: strip_def)


lemma set_found_books: "set (found_books t books) \<subseteq> set books"
  by (auto simp: found_books_def)

lemma library_remove_book:
  "b \<in> set (library s) \<Longrightarrow>
     \<exists>s'. remove_book json_dump w b s = (Rerun, s') \<and> library s' = remove1 b (library s)"
  by (simp add: remove_book_def list_remove_def)

lemma removal_rows_click:
  "set bs \<subseteq> set (library s) \<Longrightarrow> i \<le> j \<Longrightarrow> j < i + length bs \<Longrightarrow>
     \<exists>s'. removal_rows json_dump w (Some j) i bs s = (Rerun, s') \<and>
          library s' = remove1 (bs ! (j - i)) (library s)"
proof (induction bs arbitrary: i s)
  case Nil
  then show ?case by simp
next
  case (Cons b rest)
  show ?case
  proof (cases "j = i")
    case True
    with Cons.prems library_remove_book [of b "display (Removal_row b) s" json_dump w]
    show ?thesis by simp
  next
    case False
    with Cons.prems have "Suc i \<le> j" "j < Suc i + length rest"
      "set rest \<subseteq> set (library (display (Removal_row b) s))"
      by simp_all
    from Cons.IH [OF this(3) this(1) this(2)] False Cons.prems
    show ?thesis by (simp add: Suc_diff_le)
  qed
qed

lemma removal_rows_no_click:
  "(\<forall>j. clicked = Some j \<longrightarrow> j < i \<or> i + length bs \<le> j) \<Longrightarrow>
     removal_rows json_dump w clicked i bs s = (Continue, s\<lparr>screen := screen s @ map Removal_row bs\<rparr>)"
proof (induction bs arbitrary: i s)
  case Nil
  then show ?case by simp
next
  case (Cons b rest)
  from Cons.prems have "clicked \<noteq> Some i" by auto
  moreover from Cons.prems have "\<forall>j. clicked = Some j \<longrightarrow> j < Suc i \<or> Suc i + length rest \<le> j"
    by auto
  ultimately show ?case
    using Cons.IH [of "Suc i" "display (Removal_row b) s"] by (simp add: display_def)
qed



lemma sorted_py_mset [simp]: "mset (sorted_py key reverse xs) = mset xs"
  by (simp add: sorted_py_def)




lemma sorted_py_idem: "sorted_py key False (sorted_py key False xs) = sorted_py key False xs"
  by (simp add: sorted_py_def sort_key_id_if_sorted)

lemma sorted_py_idem_rev: "sorted_py key True (sorted_py key True xs) = sorted_py key True xs"
  by (simp add: sorted_py_def sort_key_id_if_sorted)

lemma figures_Nil:
  "figures [] = \<lparr>total_books = 0, read_count = 0, percentage_read = 0, genres = Map.empty\<rparr>"
  by (simp add: figures_def Let_def)




lemma length_remove1_present: "x \<in> set xs \<Longrightarrow> length (remove1 x xs) + 1 = length xs"
  by (induction xs) auto

lemma removal_rows_library:
  assumes "set bs \<subseteq> set (library s)"
  shows "\<exists>s'. (removal_rows json_dump w clicked i bs s = (Continue, s') \<or>
              removal_rows json_dump w clicked i bs s = (Rerun, s')) \<and>
          library s' =
            (case clicked of
               None \<Rightarrow> library s
             | Some j \<Rightarrow> if i \<le> j \<and> j < i + length bs
                         then remove1 (bs ! (j - i)) (library s) else library s)"
proof (cases clicked)
  case None
  then show ?thesis
    using removal_rows_no_click [of clicked i bs json_dump w s] by simp
next
  case (Some j)
  show ?thesis
  proof (cases "i \<le> j \<and> j < i + length bs")
    case True
    with assms Some removal_rows_click [of bs s i j json_dump w] show ?thesis
      by auto
  next
    case False
    with Some removal_rows_no_click [of clicked i bs json_dump w s] show ?thesis
      by auto
  qed
qed

subsection \<open>The store\<close>





subsection \<open>Adding\<close>

text \<open>
  Claim C9. Adding a book changes the catalog only by appending the book: the catalog
  before is a prefix of the catalog after, every book that was there keeps its value and
  its position, the new book is the last one and the length grows by one. The view does
  this when the form is submitted with a title and an author, and leaves the catalog as
  it is otherwise.
\<close>

theorem add_book_appends:
  "library (add_book json_dump w b s) = library s @ [b] \<and>
   take (length (library s)) (library (add_book json_dump w b s)) = library s \<and>
   (\<forall>i < length (library s). library (add_book json_dump w b s) ! i = library s ! i) \<and>
   length (library (add_book json_dump w b s)) = length (library s) + 1 \<and>
   last (library (add_book json_dump w b s)) = b \<and>
   library (add_book_view json_dump w f s) =
     (if submitted f \<and> strip (title_input f) \<noteq> [] \<and> strip (author_input f) \<noteq> []
      then library (add_book json_dump w (new_book f) s) else library s)"
  by (simp add: nth_append library_add_book_view)

theorem add_book_appends_witness:
  "library (add_book example_dump Written emma (session [dune])) = [dune, emma] \<and>
   library (add_book example_dump Written emma (session [dune])) ! 0 = library (session [dune]) ! 0 \<and>
   length (library (add_book example_dump Written emma (session [dune]))) = 2"
  using add_book_appends [of example_dump Written emma "session [dune]"]
  by (simp add: session_def)

subsection \<open>Removing\<close>

text \<open>
  Claim C4, as the program has it. Removing a book deletes its first equal entry and
  keeps the rest in order; when no entry is equal the catalog is left as it is and
  \<^verbatim>\<open>ValueError\<close> is raised. Removing a book right after adding it gives back the
  catalog from before the addition when that catalog had no equal entry, and the result
  is then without the book. When an equal entry was there already, the earlier entry is
  the one removed and the appended one stays, so the book is still in the result; the
  result holds the same books as before the addition, each as often.
\<close>

theorem remove_book_first_match:
  "(b \<in> set (library s) \<longrightarrow>
      (\<exists>before after. library s = before @ b # after \<and> b \<notin> set before \<and>
         library (snd (remove_book json_dump w b s)) = before @ after) \<and>
      fst (remove_book json_dump w b s) = Rerun) \<and>
   (b \<notin> set (library s) \<longrightarrow>
      remove_book json_dump w b s = (Raised (ValueError ''list.remove(x): x not in list''), s)) \<and>
   (b \<notin> set (library s) \<longrightarrow>
      library (snd (remove_book json_dump w' b (add_book json_dump w b s))) = library s \<and>
      b \<notin> set (library (snd (remove_book json_dump w' b (add_book json_dump w b s))))) \<and>
   (b \<in> set (library s) \<longrightarrow>
      library (snd (remove_book json_dump w' b (add_book json_dump w b s))) =
        remove1 b (library s) @ [b]) \<and>
   mset (library (snd (remove_book json_dump w' b (add_book json_dump w b s)))) = mset (library s)"
proof -
  have first: "\<exists>before after. library s = before @ b # after \<and> b \<notin> set before \<and>
         library (snd (remove_book json_dump w b s)) = before @ after"
    if "b \<in> set (library s)"
  proof -
    from that obtain before after where
      split: "library s = before @ b # after" "b \<notin> set before"
      by (auto dest: split_list_first)
    then have "remove1 b (library s) = before @ after"
      by (simp add: remove1_append)
    with that split show ?thesis
      by (auto simp: remove_book_def list_remove_def)
  qed
  have again: "library (snd (remove_book json_dump w' b (add_book json_dump w b s))) =
      remove1 b (library s @ [b])"
    by (simp add: remove_book_def list_remove_def)
  show ?thesis
    using first again
    by (auto simp: remove_book_def list_remove_def remove1_append remove1_idem)
qed

theorem remove_book_first_match_witness:
  "library (snd (remove_book example_dump Written dune (session [emma, dune, emma, dune]))) =
     [emma, emma, dune] \<and>
   remove_book example_dump Written dune (session [emma]) =
     (Raised (ValueError ''list.remove(x): x not in list''), session [emma]) \<and>
   library (snd (remove_book example_dump Written dune
                   (add_book example_dump Written dune (session [emma])))) = [emma] \<and>
   library (snd (remove_book example_dump Written dune
                   (add_book example_dump Written dune (session [dune, emma])))) = [emma, dune]"
proof -
  have ne: "dune \<noteq> emma" "emma \<noteq> dune"
    by (simp_all add: dune_def emma_def)
  have "\<exists>before after. [emma, dune, emma, dune] = before @ dune # after \<and> dune \<notin> set before \<and>
         library (snd (remove_book example_dump Written dune (session [emma, dune, emma, dune]))) =
           before @ after"
    using remove_book_first_match [of dune "session [emma, dune, emma, dune]" example_dump Written]
    by (simp add: session_def)
  then obtain before after where
    s: "[emma, dune, emma, dune] = before @ dune # after" "dune \<notin> set before"
    "library (snd (remove_book example_dump Written dune (session [emma, dune, emma, dune]))) =
       before @ after"
    by blast
  from s(1,2) ne have "before = [emma] \<and> after = [emma, dune]"
    by (cases before; cases "tl before") auto
  with s(3) have one: "library (snd (remove_book example_dump Written dune
      (session [emma, dune, emma, dune]))) = [emma, emma, dune]"
    by simp
  show ?thesis
    using one ne
      remove_book_first_match [of dune "session [emma]" example_dump Written Written]
      remove_book_first_match [of dune "session [dune, emma]" example_dump Written Written]
    by (simp add: session_def)
qed

text \<open>
  Claim C4, as it is stated, fails where the catalog already holds an equal entry: after
  adding and removing the book, the catalog still contains it.
\<close>

theorem remove_after_add_counterexample:
  "dune \<in> set (library (snd (remove_book example_dump Written dune
                               (add_book example_dump Written dune (session [dune])))))"
  by (simp add: remove_book_def list_remove_def session_def)

text \<open>
  Claim C8. In the removal view every book that is offered for removal is an entry of the
  library, since the list of found books is the library or a selection from it. So
  \<^verbatim>\<open>library.remove(book)\<close> finds its book and no exception leaves the view, whatever
  the search input and the button pressed; and pressing the button of a listed book
  removes the first entry equal to it, which makes the library one entry shorter.
\<close>

theorem remove_flow_finds_its_book:
  "set (found_books (lower search_input) (library s)) \<subseteq> set (library s) \<and>
   (\<forall>b \<in> set (found_books (lower search_input) (library s)).
      list_remove (library s) b = Inr (remove1 b (library s))) \<and>
   fst (remove_book_view json_dump w search_input clicked back s) = None \<and>
   (\<forall>i. clicked = Some i \<and> i < length (found_books (lower search_input) (library s)) \<longrightarrow>
      library (snd (remove_book_view json_dump w search_input clicked back s)) =
        remove1 (found_books (lower search_input) (library s) ! i) (library s) \<and>
      length (library (snd (remove_book_view json_dump w search_input clicked back s))) + 1 =
        length (library s))"
proof -
  let ?found = "found_books (lower search_input) (library s)"
  have sub: "set ?found \<subseteq> set (library s)"
    by (rule set_found_books)
  then have present: "\<forall>b \<in> set ?found. list_remove (library s) b = Inr (remove1 b (library s))"
    by (auto simp: list_remove_def)
  from removal_rows_library [OF sub, of json_dump w clicked 0] obtain s' where
    rows: "removal_rows json_dump w clicked 0 ?found s = (Continue, s') \<or>
           removal_rows json_dump w clicked 0 ?found s = (Rerun, s')"
    and lib: "library s' =
            (case clicked of
               None \<Rightarrow> library s
             | Some j \<Rightarrow> if j < length ?found then remove1 (?found ! j) (library s)
                         else library s)"
    by (cases clicked) auto
  from rows have quiet: "fst (remove_book_view json_dump w search_input clicked back s) = None"
    by (auto simp: remove_book_view_def Let_def)
  have click: "library (snd (remove_book_view json_dump w search_input clicked back s)) =
        remove1 (?found ! i) (library s) \<and>
      length (library (snd (remove_book_view json_dump w search_input clicked back s))) + 1 =
        length (library s)"
    if c: "clicked = Some i" "i < length ?found" for i
  proof -
    from c have ne: "?found \<noteq> []" "library s \<noteq> []"
      by (auto simp: found_books_def split: if_splits)
    from c have mem: "?found ! i \<in> set (library s)"
      using sub nth_mem by blast
    from rows lib c ne
    have "library (snd (remove_book_view json_dump w search_input clicked back s)) =
        remove1 (?found ! i) (library s)"
      by (auto simp: remove_book_view_def Let_def)
    moreover from mem have "length (remove1 (?found ! i) (library s)) + 1 = length (library s)"
      by (rule length_remove1_present)
    ultimately show ?thesis by simp
  qed
  from sub present quiet click show ?thesis
    by blast
qed

theorem remove_flow_finds_its_book_witness:
  "fst (remove_book_view example_dump Written ''em'' (Some 0) False (session [dune, emma])) = None \<and>
   library (snd (remove_book_view example_dump Written ''em'' (Some 0) False (session [dune, emma]))) =
     [dune] \<and>
   list_remove [dune, emma] emma = Inr [dune]"
proof -
  have found: "found_books (lower ''em'') [dune, emma] = [emma]"
    by code_simp
  have ne: "dune \<noteq> emma"
    by (simp add: dune_def emma_def)
  show ?thesis
    using remove_flow_finds_its_book
      [of "''em''" "session [dune, emma]" example_dump Written "Some 0" False] found ne
    by (simp add: session_def)
qed

subsection \<open>Searching with an empty term\<close>

text \<open>
  Claim C6. An empty search term is handled in two ways. In the removal view it selects
  the whole library, unchanged and in its order: every book gets its row. In the search
  view it shows no result at all, neither a list nor the warning that nothing was found;
  there an input of white space alone is an empty term too. Both hold for every library;
  on an empty library either view shows the warning that the library is empty instead.
\<close>

theorem empty_search_term_two_behaviours:
  "found_books (lower []) books = books \<and>
   remove_book_view json_dump w [] None back s =
     (None, back_to_menu back
              (if library s = [] then display Library_empty s
               else s\<lparr>screen := screen s @ map Removal_row (library s)\<rparr>)) \<and>
   search_books_view search_type [] back s =
     back_to_menu back (if library s = [] then display Library_empty s else s) \<and>
   (strip search_input = [] \<longrightarrow>
      search_books_view search_type search_input back s =
        back_to_menu back (if library s = [] then display Library_empty s else s))"
proof -
  have rows: "removal_rows json_dump w None 0 (library s) s =
      (Continue, s\<lparr>screen := screen s @ map Removal_row (library s)\<rparr>)"
    by (rule removal_rows_no_click) simp
  have "found_books (lower []) books = books" for books
    by (simp add: found_books_def)
  with rows show ?thesis
    by (simp add: remove_book_view_def search_books_view_def)
qed

theorem empty_search_term_two_behaviours_witness:
  "search_books_view Title ''  '' False (session [dune, emma]) = session [dune, emma] \<and>
   found_books (lower []) [dune, emma] = [dune, emma]"
proof -
  have "strip ''  '' = []"
    by (simp add: strip_def isspace_def)
  then show ?thesis
    using empty_search_term_two_behaviours [of "[dune, emma]" example_dump Written False
        "session [dune, emma]" Title "''  ''"]
    by (simp add: session_def back_to_menu_def)
qed

subsection \<open>Statistics\<close>




subsection \<open>Sorting\<close>


text \<open>
  Claim C7. Sorting by title, ascending, is idempotent: sorting the sorted list again
  gives the same list.
\<close>

theorem sorted_title_idempotent:
  "sorted_library Title_AZ (sorted_library Title_AZ books) = sorted_library Title_AZ books"
  by (simp add: sorted_py_idem)

end
